theory Spec2Isabelle
  imports Complex_Main
begin

section \<open>Round-trip trading scripts of the Hyperliquid SDK examples\<close>

text \<open>
  The development embeds three scripts of \<^verbatim>\<open>src/examples\<close>:
  \<^verbatim>\<open>ueth_50_roundtrips.py\<close> (the batch of round trips),
  \<^verbatim>\<open>ueth_roundtrip_trade.py\<close> and \<^verbatim>\<open>usde_roundtrip_trade.py\<close> (one round trip each).

  Modelling decisions, all of them visible in the definitions below:
  \<^item> Python floats are idealised as exact rationals (\<^typ>\<open>rat\<close>): the statements are about
    which quantity feeds which computation and about the control flow, not about binary
    rounding.
  \<^item> The exchange is an external collaborator. It is a record of functions over an
    arbitrary state type \<open>'v\<close>; every API call takes the venue state, answers with a
    value or with a raised exception (\<open>Inl\<close>), and returns the next venue state.
  \<^item> The orders handed to \<^verbatim>\<open>exchange.market_open\<close> are appended to a log kept beside
    the venue state, so that "an order was submitted" is a property of the final state.
  \<^item> Every \<^verbatim>\<open>raise\<close> of the scripts and every exception Python raises by itself on these
    paths (division by zero, a missing dictionary key, an unbound name) is a value of
    the type \<open>failure\<close>.
  \<^item> Printing is left out; the values a script prints as its report are the value the
    model returns. Connection set-up and pair resolution happen before the modelled
    part: the resolved instrument name \<^verbatim>\<open>ueth_asset\<close> is a parameter.
\<close>

subsection \<open>Data\<close>

text \<open>One element of \<^verbatim>\<open>spot_state["balances"]\<close>.\<close>

record balance_entry =
  coin :: string
  total :: rat
  hold :: rat

text \<open>The dictionary returned by \<^verbatim>\<open>exchange.market_open\<close>.\<close>

record order_result =
  status :: string
  response :: string

text \<open>The arguments of one call of \<^verbatim>\<open>exchange.market_open\<close>.\<close>

record order_request =
  name :: string
  is_buy :: bool
  sz :: rat
  slippage :: rat

text \<open>One element of the list returned by \<^verbatim>\<open>info.user_fills\<close>.\<close>

record fill =
  fill_coin :: string
  fill_side :: string
  fill_sz :: string
  fill_px :: string

datatype failure =
    InsufficientUSDC rat
  | BuyFailed order_result
  | SellFailed order_result
  | NoneReceived
  | ZeroDivisionError
  | KeyError string
  | NameError string
  | VenueError string

text \<open>
  \<open>InsufficientUSDC\<close>, \<open>BuyFailed\<close>, \<open>SellFailed\<close> and \<open>NoneReceived\<close> are the four
  \<^verbatim>\<open>raise Exception(...)\<close> of the scripts ("Insufficient USDC ...", "Buy failed ...",
  "Sell failed ...", "No UETH was received from buy order!"); \<open>VenueError\<close> is any
  exception raised inside an API call.
\<close>

record 'v venue =
  spot_user_state :: "'v \<Rightarrow> (string + balance_entry list) \<times> 'v"
  all_mids :: "'v \<Rightarrow> (string + (string \<rightharpoonup> rat)) \<times> 'v"
  venue_market_open :: "order_request \<Rightarrow> 'v \<Rightarrow> (string + order_result) \<times> 'v"
  user_fills :: "'v \<Rightarrow> (string + fill list) \<times> 'v"
  user_fees :: "'v \<Rightarrow> (string + rat) \<times> 'v"
  sleep :: "nat \<Rightarrow> 'v \<Rightarrow> 'v"

record 'v world =
  vstate :: 'v
  submitted :: "order_request list"

subsection \<open>Sequencing with exceptions\<close>

type_synonym ('a, 'v) prog = "'v world \<Rightarrow> (failure + 'a) \<times> 'v world"

definition return :: "'a \<Rightarrow> ('a, 'v) prog" where
  "return x = (\<lambda>w. (Inr x, w))"

definition raise :: "failure \<Rightarrow> ('a, 'v) prog" where
  "raise e = (\<lambda>w. (Inl e, w))"

definition bind :: "('a, 'v) prog \<Rightarrow> ('a \<Rightarrow> ('b, 'v) prog) \<Rightarrow> ('b, 'v) prog" where
  "bind m f = (\<lambda>w. case m w of (Inl e, w') \<Rightarrow> (Inl e, w') | (Inr x, w') \<Rightarrow> f x w')"

text \<open>An API call: the venue answers and moves on; its exception becomes a \<open>VenueError\<close>.\<close>

definition call :: "('v \<Rightarrow> (string + 'a) \<times> 'v) \<Rightarrow> ('a, 'v) prog" where
  "call f = (\<lambda>w. case f (vstate w) of
       (Inl msg, v') \<Rightarrow> (Inl (VenueError msg), w\<lparr>vstate := v'\<rparr>)
     | (Inr x, v') \<Rightarrow> (Inr x, w\<lparr>vstate := v'\<rparr>))"

text \<open>\<^verbatim>\<open>time.sleep(n)\<close>: nothing is returned, the venue state moves on.\<close>

definition time_sleep :: "'v venue \<Rightarrow> nat \<Rightarrow> (unit, 'v) prog" where
  "time_sleep info n = (\<lambda>w. (Inr (), w\<lparr>vstate := sleep info n (vstate w)\<rparr>))"

text \<open>
  \<^verbatim>\<open>exchange.market_open(name=..., is_buy=..., sz=..., slippage=...)\<close>: the request is logged,
  then the venue answers.
\<close>

definition market_open ::
  "'v venue \<Rightarrow> string \<Rightarrow> bool \<Rightarrow> rat \<Rightarrow> rat \<Rightarrow> (order_result, 'v) prog" where
  "market_open exchange nm buy amount slip =
     (let req = \<lparr>name = nm, is_buy = buy, sz = amount, slippage = slip\<rparr>
      in (\<lambda>w. call (venue_market_open exchange req) (w\<lparr>submitted := submitted w @ [req]\<rparr>)))"

text \<open>Python's \<^verbatim>\<open>a / b\<close> on floats raises \<^verbatim>\<open>ZeroDivisionError\<close> when \<^verbatim>\<open>b\<close> is zero.\<close>

definition py_div :: "rat \<Rightarrow> rat \<Rightarrow> (rat, 'v) prog" where
  "py_div a b = (if b = 0 then raise ZeroDivisionError else return (a / b))"

text \<open>Python's \<^verbatim>\<open>d[k]\<close> raises \<^verbatim>\<open>KeyError\<close> when the key is missing.\<close>

definition py_getitem :: "(string \<rightharpoonup> rat) \<Rightarrow> string \<Rightarrow> (rat, 'v) prog" where
  "py_getitem d k = (case d k of None \<Rightarrow> raise (KeyError k) | Some x \<Rightarrow> return x)"

subsection \<open>\<^verbatim>\<open>get_balance\<close> (the same in the three scripts)\<close>

text \<open>
  \<^verbatim>\<open>
  def get_balance(info, address, token_name):
      spot_state = info.spot_user_state(address)
      for balance in spot_state["balances"]:
          if balance["coin"] == token_name:
              return float(balance["total"])
      return 0.0
  \<close>
\<close>

fun balance_loop :: "balance_entry list \<Rightarrow> string \<Rightarrow> rat" where
  "balance_loop [] token_name = 0"
| "balance_loop (balance # rest) token_name =
     (if coin balance = token_name then total balance else balance_loop rest token_name)"

definition get_balance :: "'v venue \<Rightarrow> string \<Rightarrow> (rat, 'v) prog" where
  "get_balance info token_name =
     bind (call (spot_user_state info)) (\<lambda>spot_state.
     return (balance_loop spot_state token_name))"

subsection \<open>\<^verbatim>\<open>ueth_50_roundtrips.py\<close>: one round trip of the batch\<close>

text \<open>
  The dictionary \<^verbatim>\<open>execute_single_roundtrip\<close> returns. The success dictionary has the keys
  \<^verbatim>\<open>success, volume, cost, usdc_remaining, ueth_amount, ueth_price\<close>, the failure dictionary
  has \<^verbatim>\<open>success, error, volume, cost\<close> with \<^verbatim>\<open>volume\<close> and \<^verbatim>\<open>cost\<close> equal to 0; a key that a
  dictionary does not have is \<open>None\<close>.
\<close>

record trade_result =
  success :: bool
  error :: "failure option"
  volume :: rat
  cost :: rat
  usdc_remaining :: "rat option"
  ueth_amount :: "rat option"
  ueth_price :: "rat option"

text \<open>The body of the \<^verbatim>\<open>try\<close> block, lines 38 to 102.\<close>

definition roundtrip_body :: "'v venue \<Rightarrow> string \<Rightarrow> (trade_result, 'v) prog" where
  "roundtrip_body exchange ueth_asset =
     bind (get_balance exchange ''USDC'') (\<lambda>usdc_before.
     if usdc_before < 1 then raise (InsufficientUSDC usdc_before) else
     bind (call (all_mids exchange)) (\<lambda>mids.
     bind (py_getitem mids ueth_asset) (\<lambda>price.
     bind (py_div usdc_before price) (\<lambda>estimated_ueth_amount.
     let ueth_trade_amount = of_int \<lfloor>estimated_ueth_amount * 10000\<rfloor> / 10000 in
     bind (market_open exchange ueth_asset True ueth_trade_amount (1 / 1000)) (\<lambda>buy_result.
     if status buy_result \<noteq> ''ok'' then raise (BuyFailed buy_result) else
     bind (time_sleep exchange 1) (\<lambda>_.
     bind (market_open exchange ueth_asset False ueth_trade_amount (1 / 1000)) (\<lambda>sell_result.
     if status sell_result \<noteq> ''ok'' then raise (SellFailed sell_result) else
     bind (time_sleep exchange 1) (\<lambda>_.
     bind (get_balance exchange ''USDC'') (\<lambda>usdc_after.
     let trade_cost = usdc_before - usdc_after;
         volume_generated = ueth_trade_amount * price * 2
     in return \<lparr>success = True, error = None, volume = volume_generated, cost = trade_cost,
                 usdc_remaining = Some usdc_after, ueth_amount = Some ueth_trade_amount,
                 ueth_price = Some price\<rparr>)))))))))"

text \<open>
  \<^verbatim>\<open>except Exception as e: return {'success': False, 'error': str(e), 'volume': 0, 'cost': 0}\<close>
\<close>

definition execute_single_roundtrip ::
  "'v venue \<Rightarrow> string \<Rightarrow> nat \<Rightarrow> nat \<Rightarrow> 'v world \<Rightarrow> trade_result \<times> 'v world" where
  "execute_single_roundtrip exchange ueth_asset trade_num total_trades w =
     (case roundtrip_body exchange ueth_asset w of
        (Inr result, w') \<Rightarrow> (result, w')
      | (Inl e, w') \<Rightarrow>
          (\<lparr>success = False, error = Some e, volume = 0, cost = 0,
            usdc_remaining = None, ueth_amount = None, ueth_price = None\<rparr>, w'))"

subsection \<open>\<^verbatim>\<open>ueth_50_roundtrips.py\<close>: the batch loop of \<^verbatim>\<open>main\<close>\<close>

text \<open>The cumulative statistics of lines 137 to 141.\<close>

record batch =
  total_volume :: rat
  total_cost :: rat
  successful_trades :: nat
  failed_trades :: nat
  trade_results :: "trade_result list"

definition initial_batch :: batch where
  "initial_batch =
     \<lparr>total_volume = 0, total_cost = 0, successful_trades = 0, failed_trades = 0,
      trade_results = []\<rparr>"

text \<open>
  The \<^verbatim>\<open>for\<close> loop of lines 147 to 165 over the remaining trade numbers; \<open>ex\<close> is the call
  \<^verbatim>\<open>execute_single_roundtrip(exchange, info, address, ueth_asset, trade_num, total_trades)\<close>.
  The \<^verbatim>\<open>break\<close> of the failure branch is the branch without a recursive call.
\<close>

fun trade_loop ::
  "(nat \<Rightarrow> 'w \<Rightarrow> trade_result \<times> 'w) \<Rightarrow> nat list \<Rightarrow> batch \<Rightarrow> 'w \<Rightarrow> batch \<times> 'w" where
  "trade_loop ex [] b w = (b, w)"
| "trade_loop ex (trade_num # rest) b w =
     (case ex trade_num w of (result, w') \<Rightarrow>
        if success result
        then trade_loop ex rest
               (b\<lparr>trade_results := trade_results b @ [result],
                  successful_trades := successful_trades b + 1,
                  total_volume := total_volume b + volume result,
                  total_cost := total_cost b + cost result\<rparr>) w'
        else (b\<lparr>trade_results := trade_results b @ [result],
                failed_trades := failed_trades b + 1\<rparr>, w'))"

text \<open>
  Lines 137 to 165 with the number of trades as a parameter: \<^verbatim>\<open>range(1, total_trades + 1)\<close>
  is \<open>[1..<total_trades + 1]\<close>. The script fixes \<^verbatim>\<open>total_trades = 50\<close>.
\<close>

definition run_batch :: "'v venue \<Rightarrow> string \<Rightarrow> nat \<Rightarrow> 'v world \<Rightarrow> batch \<times> 'v world" where
  "run_batch exchange ueth_asset total_trades w =
     trade_loop (\<lambda>trade_num. execute_single_roundtrip exchange ueth_asset trade_num total_trades)
       [1..<total_trades + 1] initial_batch w"

text \<open>
  \<^verbatim>\<open>main\<close> of the batch script from line 131 on: the starting balance, the loop, the final
  balance. An exception of either balance query ends \<^verbatim>\<open>main\<close> in its outer handler.
\<close>

definition ueth_50_main :: "'v venue \<Rightarrow> string \<Rightarrow> (rat \<times> batch \<times> rat, 'v) prog" where
  "ueth_50_main exchange ueth_asset =
     bind (get_balance exchange ''USDC'') (\<lambda>initial_usdc.
     bind (\<lambda>w. case run_batch exchange ueth_asset 50 w of (b, w') \<Rightarrow> (Inr b, w')) (\<lambda>b.
     bind (get_balance exchange ''USDC'') (\<lambda>final_usdc.
     return (initial_usdc, b, final_usdc))))"

subsection \<open>\<^verbatim>\<open>ueth_roundtrip_trade.py\<close>: a single round trip\<close>

text \<open>
  \<^verbatim>\<open>
  def wait_for_fill(info, address, timeout=10):
      time.sleep(timeout)
      recent_fills = info.user_fills(address)
      ...
      return recent_fills
  \<close>
\<close>

definition wait_for_fill :: "'v venue \<Rightarrow> nat \<Rightarrow> (fill list, 'v) prog" where
  "wait_for_fill info timeout =
     bind (time_sleep info timeout) (\<lambda>_.
     call (user_fills info))"

text \<open>
  The \<^verbatim>\<open>try\<close> block of \<^verbatim>\<open>main\<close> is cut into three consecutive segments, so that the
  points "the buy order is in and the wait is over" and "the buy leg is confirmed" have a
  name. The local variables alive at the cut are carried in a record.
\<close>

record sizing =
  price :: rat
  initial_usdc :: rat
  initial_ueth :: rat
  ueth_trade_amount :: rat

record bought = sizing +
  usdc_after_buy :: rat
  ueth_after_buy :: rat
  actual_ueth_bought :: rat
  usdc_spent :: rat

record report = bought +
  final_usdc :: rat
  final_ueth :: rat
  usdc_received :: rat
  net_usdc_change :: rat
  trade_total_volume :: rat
  estimated_fees :: "rat option"

text \<open>Lines 78 to 132: price, initial balances, sizing, the buy order, the wait.\<close>

definition submit_buy :: "'v venue \<Rightarrow> string \<Rightarrow> (sizing, 'v) prog" where
  "submit_buy exchange ueth_asset =
     bind (call (all_mids exchange)) (\<lambda>mids.
     bind (py_getitem mids ueth_asset) (\<lambda>p.
     bind (get_balance exchange ''USDC'') (\<lambda>usdc0.
     bind (get_balance exchange ''UETH'') (\<lambda>ueth0.
     let trade_usdc_amount = usdc0 in
     bind (py_div trade_usdc_amount p) (\<lambda>estimated_ueth_amount.
     let amount = of_int \<lfloor>estimated_ueth_amount * 10000\<rfloor> / 10000 in
     if trade_usdc_amount < 1 then raise (InsufficientUSDC usdc0) else
     bind (market_open exchange ueth_asset True amount (1 / 1000)) (\<lambda>buy_result.
     if status buy_result \<noteq> ''ok'' then raise (BuyFailed buy_result) else
     bind (wait_for_fill exchange 5) (\<lambda>_.
     return \<lparr>price = p, initial_usdc = usdc0, initial_ueth = ueth0,
              ueth_trade_amount = amount\<rparr>)))))))"

text \<open>
  Lines 134 to 150: the balances after the buy, the observed delta, and
  \<^verbatim>\<open>if actual_ueth_bought <= 0: raise Exception("No UETH was received from buy order!")\<close>.
\<close>

definition confirm_buy :: "'v venue \<Rightarrow> sizing \<Rightarrow> (bought, 'v) prog" where
  "confirm_buy exchange c =
     bind (get_balance exchange ''USDC'') (\<lambda>usdc1.
     bind (get_balance exchange ''UETH'') (\<lambda>ueth1.
     let bought_qty = ueth1 - initial_ueth c;
         spent = initial_usdc c - usdc1
     in if bought_qty \<le> 0 then raise NoneReceived else
        return \<lparr>price = price c, initial_usdc = initial_usdc c, initial_ueth = initial_ueth c,
                 ueth_trade_amount = ueth_trade_amount c,
                 usdc_after_buy = usdc1, ueth_after_buy = ueth1,
                 actual_ueth_bought = bought_qty, usdc_spent = spent\<rparr>))"

text \<open>
  The inner \<^verbatim>\<open>try\<close> of lines 203 to 222: the fee estimate is reported when
  \<^verbatim>\<open>info.user_fees\<close> answers; any exception there is caught and only printed.
\<close>

definition fee_estimate :: "'v venue \<Rightarrow> rat \<Rightarrow> (rat option, 'v) prog" where
  "fee_estimate exchange vol =
     (\<lambda>w. case call (user_fees exchange) w of
        (Inl e, w') \<Rightarrow> (Inr None, w')
      | (Inr taker_fee_rate, w') \<Rightarrow> (Inr (Some (vol * taker_fee_rate)), w'))"

text \<open>
  Lines 152 to 236: the sell order with \<^verbatim>\<open>sz=ueth_trade_amount\<close>, the wait, the final
  balances and the summary. Line 183 prints \<^verbatim>\<open>usdc_received/ueth_trade_amount\<close>, which raises
  when the traded amount is zero.
\<close>

definition sell_leg :: "'v venue \<Rightarrow> string \<Rightarrow> bought \<Rightarrow> (report, 'v) prog" where
  "sell_leg exchange ueth_asset c =
     bind (market_open exchange ueth_asset False (ueth_trade_amount c) (1 / 1000)) (\<lambda>sell_result.
     if status sell_result \<noteq> ''ok'' then raise (SellFailed sell_result) else
     bind (wait_for_fill exchange 5) (\<lambda>_.
     bind (get_balance exchange ''USDC'') (\<lambda>usdc2.
     bind (get_balance exchange ''UETH'') (\<lambda>ueth2.
     let received = usdc2 - usdc_after_buy c in
     bind (py_div received (ueth_trade_amount c)) (\<lambda>_.
     let net_change = usdc2 - initial_usdc c;
         vol = usdc_spent c + received
     in bind (fee_estimate exchange vol) (\<lambda>fees.
        return \<lparr>price = price c, initial_usdc = initial_usdc c, initial_ueth = initial_ueth c,
                 ueth_trade_amount = ueth_trade_amount c,
                 usdc_after_buy = usdc_after_buy c, ueth_after_buy = ueth_after_buy c,
                 actual_ueth_bought = actual_ueth_bought c, usdc_spent = usdc_spent c,
                 final_usdc = usdc2, final_ueth = ueth2, usdc_received = received,
                 net_usdc_change = net_change, trade_total_volume = vol,
                 estimated_fees = fees\<rparr>))))))"

text \<open>
  \<^verbatim>\<open>main\<close> from line 78 on. An exception of any segment reaches the outer handler, which
  prints "TRADE FAILED": the result \<open>Inl\<close>.
\<close>

definition ueth_roundtrip_main :: "'v venue \<Rightarrow> string \<Rightarrow> (report, 'v) prog" where
  "ueth_roundtrip_main exchange ueth_asset =
     bind (submit_buy exchange ueth_asset) (\<lambda>c.
     bind (confirm_buy exchange c) (\<lambda>c'.
     sell_leg exchange ueth_asset c'))"

subsection \<open>\<^verbatim>\<open>usde_roundtrip_trade.py\<close>: a single round trip\<close>

text \<open>
  \<^verbatim>\<open>main\<close> from line 78 on. The buy order is placed with \<^verbatim>\<open>sz=estimated_ueth_amount\<close>, the
  tentative size as it is. Line 135, \<^verbatim>\<open>actual_usde_bought = usde_after_buy - initial_usde\<close>,
  reads \<^verbatim>\<open>initial_usde\<close>, a name that no line of the script binds: Python raises
  \<^verbatim>\<open>NameError\<close> there, and the lines after it are never reached.
\<close>

definition usde_roundtrip_main :: "'v venue \<Rightarrow> string \<Rightarrow> (report, 'v) prog" where
  "usde_roundtrip_main exchange ueth_asset =
     bind (call (all_mids exchange)) (\<lambda>mids.
     bind (py_getitem mids ueth_asset) (\<lambda>p.
     bind (get_balance exchange ''USDC'') (\<lambda>usdc0.
     bind (get_balance exchange ''UETH'') (\<lambda>ueth0.
     let trade_usdc_amount = usdc0 in
     bind (py_div trade_usdc_amount p) (\<lambda>estimated_ueth_amount.
     if trade_usdc_amount < 1 then raise (InsufficientUSDC usdc0) else
     bind (market_open exchange ueth_asset True estimated_ueth_amount (1 / 1000)) (\<lambda>buy_result.
     if status buy_result \<noteq> ''ok'' then raise (BuyFailed buy_result) else
     bind (wait_for_fill exchange 5) (\<lambda>_.
     bind (get_balance exchange ''USDC'') (\<lambda>usdc1.
     bind (get_balance exchange ''USDE'') (\<lambda>usde1.
     raise (NameError ''initial_usde''))))))))))"

subsection \<open>The round trips of a batch, one after the other\<close>

text \<open>
  To speak about "round trip number \<open>k\<close>" of a batch: \<open>world_after_trips\<close> is the state
  left by the round trips 1 to \<open>j\<close> executed in sequence, and \<open>trip_result\<close> is what
  round trip \<open>k\<close> returns when it starts in the state left by the \<open>k - 1\<close> before it.
\<close>

fun world_after_trips :: "'v venue \<Rightarrow> string \<Rightarrow> nat \<Rightarrow> nat \<Rightarrow> 'v world \<Rightarrow> 'v world" where
  "world_after_trips exchange ueth_asset total_trades 0 w = w"
| "world_after_trips exchange ueth_asset total_trades (Suc j) w =
     snd (execute_single_roundtrip exchange ueth_asset (Suc j) total_trades
            (world_after_trips exchange ueth_asset total_trades j w))"

definition trip_result :: "'v venue \<Rightarrow> string \<Rightarrow> nat \<Rightarrow> 'v world \<Rightarrow> nat \<Rightarrow> trade_result" where
  "trip_result exchange ueth_asset total_trades w k =
     fst (execute_single_roundtrip exchange ueth_asset k total_trades
            (world_after_trips exchange ueth_asset total_trades (k - 1) w))"

text \<open>
  The state of the loop after its first \<open>j\<close> iterations, or after its \<^verbatim>\<open>break\<close> when that
  came earlier: the loop run on the first \<open>j\<close> trade numbers.
\<close>

definition batch_after_steps ::
  "'v venue \<Rightarrow> string \<Rightarrow> nat \<Rightarrow> nat \<Rightarrow> 'v world \<Rightarrow> batch \<times> 'v world" where
  "batch_after_steps exchange ueth_asset total_trades j w =
     trade_loop (\<lambda>trade_num. execute_single_roundtrip exchange ueth_asset trade_num total_trades)
       (take j [1..<total_trades + 1]) initial_batch w"

text \<open>The requests \<^verbatim>\<open>market_open\<close> is called with.\<close>

definition buy_order :: "string \<Rightarrow> rat \<Rightarrow> order_request" where
  "buy_order nm q = \<lparr>name = nm, is_buy = True, sz = q, slippage = 1 / 1000\<rparr>"

definition sell_order :: "string \<Rightarrow> rat \<Rightarrow> order_request" where
  "sell_order nm q = \<lparr>name = nm, is_buy = False, sz = q, slippage = 1 / 1000\<rparr>"

subsection \<open>A simulated venue\<close>

text \<open>
  A small deterministic exchange with one instrument, used to run the scripts on concrete
  inputs. Its state holds the account's balances, the mid price, and what happens to the
  orders to come: \<open>Fill px fee\<close> executes the order at price \<open>px\<close> and takes the fraction
  \<open>fee\<close> of the asset received, \<open>Rest\<close> accepts the order and fills nothing, \<open>Reject\<close>
  answers with an error status. With no outcome left an order is rejected.
\<close>

datatype outcome = Fill rat rat | Rest | Reject

record sim =
  balances :: "balance_entry list"
  mid :: rat
  outcomes :: "outcome list"

fun credit :: "string \<Rightarrow> rat \<Rightarrow> balance_entry list \<Rightarrow> balance_entry list" where
  "credit c x [] = [\<lparr>coin = c, total = x, hold = 0\<rparr>]"
| "credit c x (b # bs) =
     (if coin b = c then b\<lparr>total := total b + x\<rparr> # bs else b # credit c x bs)"

definition sim_fill :: "order_request \<Rightarrow> rat \<Rightarrow> rat \<Rightarrow> balance_entry list \<Rightarrow> balance_entry list" where
  "sim_fill req px fee bs =
     (if is_buy req
      then credit ''UETH'' (sz req * (1 - fee)) (credit ''USDC'' (- (sz req * px)) bs)
      else credit ''USDC'' (sz req * px * (1 - fee)) (credit ''UETH'' (- sz req) bs))"

definition sim_market_open :: "order_request \<Rightarrow> sim \<Rightarrow> (string + order_result) \<times> sim" where
  "sim_market_open req s =
     (case outcomes s of
        [] \<Rightarrow> (Inr \<lparr>status = ''err'', response = ''rejected''\<rparr>, s)
      | Reject # os \<Rightarrow> (Inr \<lparr>status = ''err'', response = ''rejected''\<rparr>, s\<lparr>outcomes := os\<rparr>)
      | Rest # os \<Rightarrow> (Inr \<lparr>status = ''ok'', response = ''resting''\<rparr>, s\<lparr>outcomes := os\<rparr>)
      | Fill px fee # os \<Rightarrow>
          (Inr \<lparr>status = ''ok'', response = ''filled''\<rparr>,
           s\<lparr>outcomes := os, balances := sim_fill req px fee (balances s)\<rparr>))"

definition sim_venue :: "sim venue" where
  "sim_venue =
     \<lparr>spot_user_state = (\<lambda>s. (Inr (balances s), s)),
      all_mids = (\<lambda>s. (Inr [''@151'' \<mapsto> mid s], s)),
      venue_market_open = sim_market_open,
      user_fills = (\<lambda>s. (Inr [], s)),
      user_fees = (\<lambda>s. (Inr (7 / 10000), s)),
      sleep = (\<lambda>n s. s)\<rparr>"

definition sim_world :: "balance_entry list \<Rightarrow> rat \<Rightarrow> outcome list \<Rightarrow> sim world" where
  "sim_world bs m os = \<lparr>vstate = \<lparr>balances = bs, mid = m, outcomes = os\<rparr>, submitted = []\<rparr>"

text \<open>
  An account with 115 USDC at a mid price of 3000. Of the five orders to come the first
  four fill (buys at 3000, sells at 2997, no fee) and the fifth, the buy of the third
  round trip, is rejected.
\<close>

definition five_trips :: "sim world" where
  "five_trips = sim_world [\<lparr>coin = ''USDC'', total = 115, hold = 0\<rparr>] 3000
     [Fill 3000 0, Fill 2997 0, Fill 3000 0, Fill 2997 0, Reject]"

text \<open>
  Further accounts for the single round trips, all at a mid price of 3000.
  \<open>fee_world\<close>: 115 USDC and 0.01 UETH; both orders fill, the venue keeps a fee of 0.07 percent
  of the asset received. \<open>resting_sell_world\<close>: the buy fills with that fee, the sell is
  accepted and does not fill. \<open>slip_world\<close>: no fee, the buy fills at 3000 and the sell at
  2997. \<open>held_world\<close>: of the 115 USDC, 114.5 are held by open orders, and the venue rejects
  the order. \<open>resting_world\<close>: both orders are accepted and neither fills.
\<close>

definition fee_world :: "sim world" where
  "fee_world = sim_world [\<lparr>coin = ''USDC'', total = 115, hold = 0\<rparr>,
                          \<lparr>coin = ''UETH'', total = 1 / 100, hold = 0\<rparr>] 3000
     [Fill 3000 (7 / 10000), Fill 2997 (7 / 10000)]"

definition resting_sell_world :: "sim world" where
  "resting_sell_world = sim_world [\<lparr>coin = ''USDC'', total = 115, hold = 0\<rparr>] 3000
     [Fill 3000 (7 / 10000), Rest]"

definition slip_world :: "sim world" where
  "slip_world = sim_world [\<lparr>coin = ''USDC'', total = 115, hold = 0\<rparr>] 3000
     [Fill 3000 0, Fill 2997 0]"

definition held_world :: "sim world" where
  "held_world = sim_world [\<lparr>coin = ''USDC'', total = 115, hold = 229 / 2\<rparr>] 3000 [Reject]"

definition resting_world :: "sim world" where
  "resting_world = sim_world [\<lparr>coin = ''USDC'', total = 115, hold = 0\<rparr>] 3000 [Rest, Rest]"

section \<open>Properties\<close>

lemmas prog_defs = bind_def return_def raise_def call_def py_div_def py_getitem_def
  time_sleep_def market_open_def get_balance_def

subsection \<open>Reading a balance\<close>

lemma balance_loop_absent:
  "token_name \<notin> coin ` set spot_state \<Longrightarrow> balance_loop spot_state token_name = 0"
  by (induction spot_state) auto

text \<open>
  Claim C9. When the venue answers the balance query and the asset is not among the
  account's balances, \<^verbatim>\<open>get_balance\<close> returns zero: no exception is raised. The script's
  balance is the single number \<^verbatim>\<open>total\<close>.
\<close>

theorem get_balance_absent_zero:
  assumes "spot_user_state info (vstate w) = (Inr spot_state, v')"
    and "token_name \<notin> coin ` set spot_state"
  shows "get_balance info token_name w = (Inr 0, w\<lparr>vstate := v'\<rparr>)"
  using assms
  by (simp add: get_balance_def bind_def call_def return_def balance_loop_absent)

theorem get_balance_absent_zero_witness:
  "spot_user_state sim_venue
      (vstate (sim_world [\<lparr>coin = ''USDC'', total = 115, hold = 0\<rparr>] 3000 []))
     = (Inr [\<lparr>coin = ''USDC'', total = 115, hold = 0\<rparr>],
        \<lparr>balances = [\<lparr>coin = ''USDC'', total = 115, hold = 0\<rparr>], mid = 3000, outcomes = []\<rparr>)
   \<and> ''UETH'' \<notin> coin ` set [\<lparr>coin = ''USDC'', total = 115, hold = 0\<rparr>]
   \<and> get_balance sim_venue ''UETH'' (sim_world [\<lparr>coin = ''USDC'', total = 115, hold = 0\<rparr>] 3000 [])
     = (Inr 0, sim_world [\<lparr>coin = ''USDC'', total = 115, hold = 0\<rparr>] 3000 [])"
proof -
  let ?bs = "[\<lparr>coin = ''USDC'', total = 115, hold = 0\<rparr>]"
  have h1: "spot_user_state sim_venue (vstate (sim_world ?bs 3000 []))
      = (Inr ?bs, \<lparr>balances = ?bs, mid = 3000, outcomes = []\<rparr>)"
    by (simp add: sim_venue_def sim_world_def)
  have h2: "''UETH'' \<notin> coin ` set ?bs"
    by simp
  from get_balance_absent_zero [OF h1 h2] h1 h2 show ?thesis
    by (simp add: sim_world_def)
qed

subsection \<open>The batch loop\<close>

lemma trade_loop_counts:
  "length (trade_results b) = successful_trades b + failed_trades b \<Longrightarrow>
   length (trade_results (fst (trade_loop ex ts b w)))
     = successful_trades (fst (trade_loop ex ts b w)) + failed_trades (fst (trade_loop ex ts b w))"
  by (induction ts arbitrary: b w) (auto split: prod.splits)

lemma trade_loop_failed:
  "failed_trades b = 0 \<Longrightarrow> list_all success (trade_results b) \<Longrightarrow>
   total_volume b = sum_list (map volume (trade_results b)) \<Longrightarrow>
   total_cost b = sum_list (map cost (trade_results b)) \<Longrightarrow>
   b' = fst (trade_loop ex ts b w) \<Longrightarrow>
    failed_trades b' \<le> 1
    \<and> (failed_trades b' = 1 \<longrightarrow> trade_results b' \<noteq> [] \<and> \<not> success (last (trade_results b')))
    \<and> list_all success (butlast (trade_results b'))
    \<and> length (filter (\<lambda>r. \<not> success r) (trade_results b')) = failed_trades b'
    \<and> total_volume b' = sum_list (map volume (filter success (trade_results b')))
    \<and> total_cost b' = sum_list (map cost (filter success (trade_results b')))"
proof (induction ts arbitrary: b w)
  case Nil
  have "filter success (trade_results b) = trade_results b"
    using Nil(2) by (simp add: list_all_iff)
  moreover have "filter (\<lambda>r. \<not> success r) (trade_results b) = []"
    using Nil(2) by (simp add: list_all_iff)
  moreover have "list_all success (butlast (trade_results b))"
    using Nil(2) by (auto simp: list_all_iff dest: in_set_butlastD)
  ultimately show ?case using Nil by simp
next
  case (Cons t ts)
  obtain r w1 where ex: "ex t w = (r, w1)" by (cases "ex t w")
  have fs: "filter success (trade_results b) = trade_results b"
    using Cons.prems(2) by (simp add: list_all_iff)
  have fn: "filter (\<lambda>r. \<not> success r) (trade_results b) = []"
    using Cons.prems(2) by (simp add: list_all_iff)
  show ?case
  proof (cases "success r")
    case True
    let ?b1 = "b\<lparr>trade_results := trade_results b @ [r],
                  successful_trades := successful_trades b + 1,
                  total_volume := total_volume b + volume r,
                  total_cost := total_cost b + cost r\<rparr>"
    have eq: "b' = fst (trade_loop ex ts ?b1 w1)"
      using Cons.prems(5) ex True by simp
    show ?thesis
      by (rule Cons.IH [OF _ _ _ _ eq]) (use Cons.prems True in simp_all)
  next
    case False
    have eq: "b' = b\<lparr>trade_results := trade_results b @ [r], failed_trades := failed_trades b + 1\<rparr>"
      using Cons.prems(5) ex False by simp
    show ?thesis
      using Cons.prems(1-4) False fs fn by (simp add: eq)
  qed
qed


lemma roundtrip_body_success:
  "roundtrip_body exchange ueth_asset w = (Inr r, w') \<Longrightarrow> success r"
  unfolding roundtrip_body_def prog_defs Let_def
  by (auto split: prod.splits sum.splits option.splits if_splits)

lemma execute_single_roundtrip_failure_zero:
  "\<not> success (fst (execute_single_roundtrip exchange ueth_asset t n w)) \<Longrightarrow>
   volume (fst (execute_single_roundtrip exchange ueth_asset t n w)) = 0
   \<and> cost (fst (execute_single_roundtrip exchange ueth_asset t n w)) = 0"
  by (auto simp: execute_single_roundtrip_def dest: roundtrip_body_success
      split: prod.splits sum.splits)

lemma trade_loop_failed_zero:
  "list_all (\<lambda>r. success r \<or> volume r = 0 \<and> cost r = 0) (trade_results b) \<Longrightarrow>
   list_all (\<lambda>r. success r \<or> volume r = 0 \<and> cost r = 0)
     (trade_results (fst (trade_loop
        (\<lambda>t. execute_single_roundtrip exchange ueth_asset t n) ts b w)))"
proof (induction ts arbitrary: b w)
  case Nil
  then show ?case by simp
next
  case (Cons t ts)
  obtain r w1 where ex: "execute_single_roundtrip exchange ueth_asset t n w = (r, w1)"
    by (cases "execute_single_roundtrip exchange ueth_asset t n w")
  show ?case
  proof (cases "success r")
    case True
    then show ?thesis
      using ex Cons.prems by (simp add: Cons.IH)
  next
    case False
    then show ?thesis
      using ex Cons.prems execute_single_roundtrip_failure_zero [of exchange ueth_asset t n w]
      by simp
  qed
qed

lemma trade_loop_stops_at_failure:
  assumes "j < k" "k \<le> n"
    and "list_all (\<lambda>i. success (trip_result exchange ueth_asset n w i)) [Suc j..<k]"
    and "\<not> success (trip_result exchange ueth_asset n w k)"
    and "r = trade_loop (\<lambda>t. execute_single_roundtrip exchange ueth_asset t n) [Suc j..<Suc n] b
               (world_after_trips exchange ueth_asset n j w)"
  shows "successful_trades (fst r) = successful_trades b + (k - 1 - j)
       \<and> failed_trades (fst r) = failed_trades b + 1
       \<and> trade_results (fst r)
           = trade_results b @ map (trip_result exchange ueth_asset n w) [Suc j..<Suc k]
       \<and> snd r = world_after_trips exchange ueth_asset n k w"
  using assms
proof (induction "k - Suc j" arbitrary: j b r)
  case 0
  then have k: "k = Suc j" by simp
  have l: "[Suc j..<Suc n] = Suc j # [Suc (Suc j)..<Suc n]"
    using "0.prems"(1,2) by (simp add: upt_conv_Cons)
  obtain x w1 where ex: "execute_single_roundtrip exchange ueth_asset (Suc j) n
        (world_after_trips exchange ueth_asset n j w) = (x, w1)"
    by (cases "execute_single_roundtrip exchange ueth_asset (Suc j) n
        (world_after_trips exchange ueth_asset n j w)")
  have x: "x = trip_result exchange ueth_asset n w k"
    using ex k by (simp add: trip_result_def)
  have one: "[Suc j..<Suc (Suc j)] = [Suc j]" by simp
  show ?case
    using "0.prems"(4,5) ex x k by (simp add: l one del: upt_Suc)
next
  case (Suc d)
  then have lt: "Suc j < k" by simp
  have l: "[Suc j..<Suc n] = Suc j # [Suc (Suc j)..<Suc n]"
    using Suc.prems(1,2) by (simp add: upt_conv_Cons)
  have lk: "[Suc j..<k] = Suc j # [Suc (Suc j)..<k]"
    using lt by (simp add: upt_conv_Cons)
  have lk': "[Suc j..<Suc k] = Suc j # [Suc (Suc j)..<Suc k]"
    using lt by (simp add: upt_conv_Cons)
  obtain x w1 where ex: "execute_single_roundtrip exchange ueth_asset (Suc j) n
        (world_after_trips exchange ueth_asset n j w) = (x, w1)"
    by (cases "execute_single_roundtrip exchange ueth_asset (Suc j) n
        (world_after_trips exchange ueth_asset n j w)")
  have x: "x = trip_result exchange ueth_asset n w (Suc j)"
    using ex by (simp add: trip_result_def)
  have w1: "w1 = world_after_trips exchange ueth_asset n (Suc j) w"
    using ex by simp
  have sx: "success x"
    using Suc.prems(3) x by (simp add: lk)
  have rest: "list_all (\<lambda>i. success (trip_result exchange ueth_asset n w i)) [Suc (Suc j)..<k]"
    using Suc.prems(3) by (simp add: lk)
  let ?b1 = "b\<lparr>trade_results := trade_results b @ [x],
                successful_trades := successful_trades b + 1,
                total_volume := total_volume b + volume x,
                total_cost := total_cost b + cost x\<rparr>"
  have r: "r = trade_loop (\<lambda>t. execute_single_roundtrip exchange ueth_asset t n)
               [Suc (Suc j)..<Suc n] ?b1 (world_after_trips exchange ueth_asset n (Suc j) w)"
    using Suc.prems(5) ex sx w1 by (simp add: l del: world_after_trips.simps upt_Suc)
  have d: "d = k - Suc (Suc j)" using Suc.hyps(2) by simp
  from Suc.hyps(1) [OF d lt Suc.prems(2) rest Suc.prems(4) r]
  show ?case
    using lt x by (simp add: lk' del: upt_Suc)
qed


lemma run_batch_all_steps:
  "run_batch exchange ueth_asset total_trades w
     = batch_after_steps exchange ueth_asset total_trades total_trades w"
  by (simp add: run_batch_def batch_after_steps_def)


text \<open>
  Claim C5. In a batch of \<open>total_trades\<close> round trips, when the round trips 1 to \<open>k - 1\<close>
  succeed and round trip \<open>k\<close> fails, the loop ends with \<open>k - 1\<close> successes and one
  failure, it has recorded the \<open>k\<close> results of the round trips 1 to \<open>k\<close>, and the world is
  the one round trip \<open>k\<close> left: nothing was attempted after it. (The script fixes
  \<^verbatim>\<open>total_trades = 50\<close>; the loop is the same for every number.)
\<close>

theorem batch_stops_at_first_failure:
  assumes "1 \<le> k" and "k \<le> total_trades"
    and "list_all (\<lambda>j. success (trip_result exchange ueth_asset total_trades w j)) [1..<k]"
    and "\<not> success (trip_result exchange ueth_asset total_trades w k)"
  shows "successful_trades (fst (run_batch exchange ueth_asset total_trades w)) = k - 1
       \<and> failed_trades (fst (run_batch exchange ueth_asset total_trades w)) = 1
       \<and> trade_results (fst (run_batch exchange ueth_asset total_trades w))
           = map (trip_result exchange ueth_asset total_trades w) [1..<k + 1]
       \<and> length (trade_results (fst (run_batch exchange ueth_asset total_trades w))) = k
       \<and> snd (run_batch exchange ueth_asset total_trades w)
           = world_after_trips exchange ueth_asset total_trades k w"
proof -
  have r: "run_batch exchange ueth_asset total_trades w
      = trade_loop (\<lambda>t. execute_single_roundtrip exchange ueth_asset t total_trades)
          [Suc 0..<Suc total_trades] initial_batch
          (world_after_trips exchange ueth_asset total_trades 0 w)"
    by (simp add: run_batch_def)
  have a: "list_all (\<lambda>j. success (trip_result exchange ueth_asset total_trades w j)) [Suc 0..<k]"
    using assms(3) by simp
  have k0: "0 < k" using assms(1) by simp
  from trade_loop_stops_at_failure [OF k0 assms(2) a assms(4) r]
  show ?thesis
    by (simp add: initial_batch_def)
qed


theorem batch_stops_at_first_failure_witness:
  "(1::nat) \<le> 3 \<and> (3::nat) \<le> 5
   \<and> list_all (\<lambda>j. success (trip_result sim_venue ''@151'' 5 five_trips j)) [1..<3]
   \<and> \<not> success (trip_result sim_venue ''@151'' 5 five_trips 3)
   \<and> successful_trades (fst (run_batch sim_venue ''@151'' 5 five_trips)) = 2
   \<and> failed_trades (fst (run_batch sim_venue ''@151'' 5 five_trips)) = 1
   \<and> length (trade_results (fst (run_batch sim_venue ''@151'' 5 five_trips))) = 3
   \<and> snd (run_batch sim_venue ''@151'' 5 five_trips)
       = world_after_trips sim_venue ''@151'' 5 3 five_trips
   \<and> map is_buy (submitted (world_after_trips sim_venue ''@151'' 5 3 five_trips))
       = [True, False, True, False, True]"
proof -
  have h1: "(1::nat) \<le> 3" and h2: "(3::nat) \<le> 5"
    by simp_all
  have h3: "list_all (\<lambda>j. success (trip_result sim_venue ''@151'' 5 five_trips j)) [1..<3]"
    by code_simp
  have h4: "\<not> success (trip_result sim_venue ''@151'' 5 five_trips 3)"
    by code_simp
  have h5: "map is_buy (submitted (world_after_trips sim_venue ''@151'' 5 3 five_trips))
       = [True, False, True, False, True]"
    by code_simp
  from batch_stops_at_first_failure [OF h1 h2 h3 h4] h3 h4 h5 show ?thesis
    by simp
qed

text \<open>
  Claim C6. After every step of the batch loop, and so at its end, the number of recorded
  results is the number of successes plus the number of failures. The script keeps no
  counter of attempts: the attempts are the recorded results.
\<close>

theorem batch_results_are_successes_plus_failures:
  "length (trade_results (fst (batch_after_steps exchange ueth_asset total_trades j w)))
     = successful_trades (fst (batch_after_steps exchange ueth_asset total_trades j w))
       + failed_trades (fst (batch_after_steps exchange ueth_asset total_trades j w))"
  by (simp add: batch_after_steps_def trade_loop_counts initial_batch_def)

text \<open>
  Claim C10. At every step of a batch at most one round trip is recorded as failed; when
  there is one, it is the last recorded result and every result before it is a success;
  the running totals are the sums over the successful results, and a failed result
  carries volume 0 and cost 0.
\<close>

theorem batch_at_most_one_failure:
  "let b = fst (batch_after_steps exchange ueth_asset total_trades j w) in
     failed_trades b \<le> 1
     \<and> (failed_trades b = 1 \<longrightarrow> trade_results b \<noteq> [] \<and> \<not> success (last (trade_results b)))
     \<and> list_all success (butlast (trade_results b))
     \<and> length (filter (\<lambda>r. \<not> success r) (trade_results b)) = failed_trades b
     \<and> total_volume b = sum_list (map volume (filter success (trade_results b)))
     \<and> total_cost b = sum_list (map cost (filter success (trade_results b)))
     \<and> list_all (\<lambda>r. success r \<or> volume r = 0 \<and> cost r = 0) (trade_results b)"
proof -
  define b where "b = fst (batch_after_steps exchange ueth_asset total_trades j w)"
  have eq: "b = fst (trade_loop
      (\<lambda>t. execute_single_roundtrip exchange ueth_asset t total_trades)
      (take j [1..<total_trades + 1]) initial_batch w)"
    by (simp add: b_def batch_after_steps_def)
  have "failed_trades initial_batch = 0"
    and "list_all success (trade_results initial_batch)"
    and "total_volume initial_batch = sum_list (map volume (trade_results initial_batch))"
    and "total_cost initial_batch = sum_list (map cost (trade_results initial_batch))"
    by (simp_all add: initial_batch_def)
  from trade_loop_failed [OF this eq]
  have main: "failed_trades b \<le> 1
     \<and> (failed_trades b = 1 \<longrightarrow> trade_results b \<noteq> [] \<and> \<not> success (last (trade_results b)))
     \<and> list_all success (butlast (trade_results b))
     \<and> length (filter (\<lambda>r. \<not> success r) (trade_results b)) = failed_trades b
     \<and> total_volume b = sum_list (map volume (filter success (trade_results b)))
     \<and> total_cost b = sum_list (map cost (filter success (trade_results b)))" .
  have "list_all (\<lambda>r. success r \<or> volume r = 0 \<and> cost r = 0) (trade_results initial_batch)"
    by (simp add: initial_batch_def)
  then have zero: "list_all (\<lambda>r. success r \<or> volume r = 0 \<and> cost r = 0) (trade_results b)"
    unfolding eq by (rule trade_loop_failed_zero)
  from main zero show ?thesis
    unfolding Let_def b_def by blast
qed

theorem batch_at_most_one_failure_witness:
  "failed_trades (fst (batch_after_steps sim_venue ''@151'' 5 5 five_trips)) = 1
   \<and> trade_results (fst (batch_after_steps sim_venue ''@151'' 5 5 five_trips)) \<noteq> []
   \<and> \<not> success (last (trade_results (fst (batch_after_steps sim_venue ''@151'' 5 5 five_trips))))
   \<and> total_volume (fst (batch_after_steps sim_venue ''@151'' 5 5 five_trips)) = 459"
proof -
  have f: "failed_trades (fst (batch_after_steps sim_venue ''@151'' 5 5 five_trips)) = 1"
    by code_simp
  have v: "total_volume (fst (batch_after_steps sim_venue ''@151'' 5 5 five_trips)) = 459"
    by code_simp
  from batch_at_most_one_failure [of sim_venue "''@151''" 5 5 five_trips] f v show ?thesis
    by (simp add: Let_def)
qed

subsection \<open>The segments of the single round trip and the body of the batch round trip\<close>

lemma submit_buy_Inr:
  assumes "submit_buy exchange a w = (Inr c, w1)"
  shows "submitted w1 = submitted w @ [buy_order a (ueth_trade_amount c)]"
    and "ueth_trade_amount c = of_int \<lfloor>initial_usdc c / price c * 10000\<rfloor> / 10000"
    and "1 \<le> initial_usdc c" and "price c \<noteq> 0"
  using assms
  unfolding submit_buy_def wait_for_fill_def prog_defs Let_def buy_order_def
  by (auto split: prod.splits sum.splits option.splits if_splits)

lemma submit_buy_Inl:
  assumes "submit_buy exchange a w = (Inl e, w1)"
  shows "submitted w1 = submitted w
       \<or> submitted w1 = submitted w @ [buy_order a (sz (last (submitted w1)))]"
  using assms
  unfolding submit_buy_def wait_for_fill_def prog_defs Let_def buy_order_def
  by (auto split: prod.splits sum.splits option.splits if_splits)

lemma confirm_buy_log:
  "confirm_buy exchange c w = (r, w') \<Longrightarrow> submitted w' = submitted w"
  unfolding confirm_buy_def prog_defs Let_def
  by (auto split: prod.splits sum.splits option.splits if_splits)

lemma confirm_buy_Inr:
  assumes "confirm_buy exchange c w = (Inr c', w')"
  shows "0 < actual_ueth_bought c'"
    and "actual_ueth_bought c' = ueth_after_buy c' - initial_ueth c"
    and "usdc_spent c' = initial_usdc c - usdc_after_buy c'"
    and "ueth_trade_amount c' = ueth_trade_amount c"
    and "initial_usdc c' = initial_usdc c"
    and "initial_ueth c' = initial_ueth c"
  using assms
  unfolding confirm_buy_def prog_defs Let_def
  by (auto split: prod.splits sum.splits option.splits if_splits)

lemma confirm_buy_no_fill:
  assumes "get_balance exchange ''USDC'' w1 = (Inr usdc1, w2)"
    and "get_balance exchange ''UETH'' w2 = (Inr ueth1, w3)"
    and "ueth1 - initial_ueth c \<le> 0"
  shows "confirm_buy exchange c w1 = (Inl NoneReceived, w3)"
  using assms by (simp add: confirm_buy_def bind_def raise_def Let_def)

lemma sell_leg_log:
  "sell_leg exchange a c w = (r, w') \<Longrightarrow>
   submitted w' = submitted w @ [sell_order a (ueth_trade_amount c)]"
  unfolding sell_leg_def wait_for_fill_def fee_estimate_def prog_defs Let_def sell_order_def
  by (auto split: prod.splits sum.splits option.splits if_splits)

lemma sell_leg_Inr:
  assumes "sell_leg exchange a c w = (Inr rep, w')"
  shows "usdc_received rep = final_usdc rep - usdc_after_buy c"
    and "trade_total_volume rep = usdc_spent c + usdc_received rep"
    and "net_usdc_change rep = final_usdc rep - initial_usdc c"
    and "usdc_spent rep = usdc_spent c" and "usdc_after_buy rep = usdc_after_buy c"
    and "initial_usdc rep = initial_usdc c"
    and "actual_ueth_bought rep = actual_ueth_bought c"
    and "ueth_trade_amount rep = ueth_trade_amount c"
  using assms
  unfolding sell_leg_def wait_for_fill_def fee_estimate_def prog_defs Let_def
  by (auto split: prod.splits sum.splits option.splits if_splits)

lemma main_submit_failed:
  "submit_buy exchange a w = (Inl e, w1) \<Longrightarrow> ueth_roundtrip_main exchange a w = (Inl e, w1)"
  by (simp add: ueth_roundtrip_main_def bind_def)

lemma main_confirm_failed:
  "submit_buy exchange a w = (Inr c, w1) \<Longrightarrow> confirm_buy exchange c w1 = (Inl e, w2) \<Longrightarrow>
   ueth_roundtrip_main exchange a w = (Inl e, w2)"
  by (simp add: ueth_roundtrip_main_def bind_def)

lemma main_confirmed:
  "submit_buy exchange a w = (Inr c, w1) \<Longrightarrow> confirm_buy exchange c w1 = (Inr c', w2) \<Longrightarrow>
   ueth_roundtrip_main exchange a w = sell_leg exchange a c' w2"
  by (simp add: ueth_roundtrip_main_def bind_def)

lemma roundtrip_body_first_read:
  assumes "spot_user_state exchange (vstate w) = (Inr bs, v1)"
  shows "balance_loop bs ''USDC'' < 1 \<Longrightarrow>
         roundtrip_body exchange a w
           = (Inl (InsufficientUSDC (balance_loop bs ''USDC'')), w\<lparr>vstate := v1\<rparr>)"
    and "\<not> balance_loop bs ''USDC'' < 1 \<Longrightarrow> fst (roundtrip_body exchange a w) \<noteq> Inl (InsufficientUSDC x)"
    and "roundtrip_body exchange a w = (Inr r, w') \<Longrightarrow>
         cost r = balance_loop bs ''USDC'' - the (usdc_remaining r)"
  using assms
  unfolding roundtrip_body_def prog_defs Let_def
  by (auto split: prod.splits sum.splits option.splits if_splits)

lemma roundtrip_body_buy_size:
  assumes "spot_user_state exchange (vstate w) = (Inr bs, v1)"
    and "all_mids exchange v1 = (Inr mids, v2)" and "mids a = Some p" and "p \<noteq> 0"
    and "\<not> balance_loop bs ''USDC'' < 1"
  shows "take (Suc (length (submitted w))) (submitted (snd (roundtrip_body exchange a w)))
       = submitted w @ [buy_order a (of_int \<lfloor>balance_loop bs ''USDC'' / p * 10000\<rfloor> / 10000)]"
  using assms
  unfolding roundtrip_body_def prog_defs Let_def buy_order_def
  by (auto split: prod.splits sum.splits option.splits if_splits)



lemma execute_world:
  "snd (execute_single_roundtrip exchange a t n w) = snd (roundtrip_body exchange a w)"
  by (simp add: execute_single_roundtrip_def split: prod.splits sum.splits)

lemma roundtrip_body_Inr:
  assumes "roundtrip_body exchange a w = (Inr r, w')"
  shows "success r" and "error r = None"
    and "ueth_amount r = Some (the (ueth_amount r))"
    and "ueth_price r = Some (the (ueth_price r))"
    and "usdc_remaining r = Some (the (usdc_remaining r))"
    and "volume r = the (ueth_amount r) * the (ueth_price r) * 2"
    and "submitted w' = submitted w @ [buy_order a (the (ueth_amount r)),
                                       sell_order a (the (ueth_amount r))]"
  using assms
  unfolding roundtrip_body_def prog_defs Let_def buy_order_def sell_order_def
  by (auto split: prod.splits sum.splits option.splits if_splits)

lemma execute_Inr:
  "success (fst (execute_single_roundtrip exchange a t n w)) \<Longrightarrow>
   roundtrip_body exchange a w = (Inr (fst (execute_single_roundtrip exchange a t n w)),
                                  snd (execute_single_roundtrip exchange a t n w))"
  by (simp add: execute_single_roundtrip_def split: prod.splits sum.splits)

lemma execute_error:
  "error (fst (execute_single_roundtrip exchange a t n w)) = Some e \<longleftrightarrow>
   fst (roundtrip_body exchange a w) = Inl e"
  by (auto simp: execute_single_roundtrip_def dest: roundtrip_body_Inr(2)
      split: prod.splits sum.splits)

lemma roundtrip_body_Inl:
  assumes "roundtrip_body exchange a w = (Inl e, w')"
  shows "submitted w' = submitted w
       \<or> submitted w' = submitted w @ [buy_order a (sz (last (submitted w')))]
       \<or> submitted w' = submitted w @ [buy_order a (sz (last (submitted w'))),
                                        sell_order a (sz (last (submitted w')))]"
  using assms
  unfolding roundtrip_body_def prog_defs Let_def buy_order_def sell_order_def
  by (auto split: prod.splits sum.splits option.splits if_splits)

lemma main_log:
  assumes "l = submitted (snd (ueth_roundtrip_main exchange a w))"
  shows "l = submitted w \<or> l = submitted w @ [buy_order a (sz (last l))]
       \<or> l = submitted w @ [buy_order a (sz (last l)), sell_order a (sz (last l))]"
proof (cases "submit_buy exchange a w")
  case (Pair r1 w1)
  show ?thesis
  proof (cases r1)
    case (Inl e)
    then have "ueth_roundtrip_main exchange a w = (Inl e, w1)"
      using Pair by (simp add: main_submit_failed)
    then show ?thesis
      using submit_buy_Inl [of exchange a w e w1] Pair Inl assms by auto
  next
    case (Inr c)
    then have sb: "submit_buy exchange a w = (Inr c, w1)" using Pair by simp
    note l1 = submit_buy_Inr(1) [OF sb]
    show ?thesis
    proof (cases "confirm_buy exchange c w1")
      case cb: (Pair r2 w2)
      have l2: "submitted w2 = submitted w1" using cb by (rule confirm_buy_log)
      show ?thesis
      proof (cases r2)
        case (Inl e)
        then have "ueth_roundtrip_main exchange a w = (Inl e, w2)"
          using sb cb by (simp add: main_confirm_failed)
        then show ?thesis using l1 l2 assms by (simp add: buy_order_def)
      next
        case (Inr c')
        then have cb': "confirm_buy exchange c w1 = (Inr c', w2)" using cb by simp
        have m: "ueth_roundtrip_main exchange a w = sell_leg exchange a c' w2"
          using sb cb' by (rule main_confirmed)
        obtain r3 w3 where sl: "sell_leg exchange a c' w2 = (r3, w3)"
          by (cases "sell_leg exchange a c' w2")
        have "submitted w3 = submitted w2 @ [sell_order a (ueth_trade_amount c')]"
          using sl by (rule sell_leg_log)
        then show ?thesis
          using m sl l1 l2 assms confirm_buy_Inr(4) [OF cb']
          by (simp add: buy_order_def sell_order_def)
      qed
    qed
  qed
qed

lemma main_Inr_log:
  assumes "ueth_roundtrip_main exchange a w = (Inr rep, w')"
  shows "submitted w' = submitted w @ [buy_order a (ueth_trade_amount rep),
                                       sell_order a (ueth_trade_amount rep)]"
    and "0 < actual_ueth_bought rep"
    and "trade_total_volume rep = usdc_spent rep + usdc_received rep"
    and "net_usdc_change rep = final_usdc rep - initial_usdc rep"
    and "usdc_spent rep = initial_usdc rep - usdc_after_buy rep"
    and "usdc_received rep = final_usdc rep - usdc_after_buy rep"
proof -
  obtain r1 w1 where p1: "submit_buy exchange a w = (r1, w1)"
    by (cases "submit_buy exchange a w")
  obtain c where sb: "submit_buy exchange a w = (Inr c, w1)"
    using p1 assms main_submit_failed [of exchange a w _ w1] by (cases r1) auto
  obtain r2 w2 where p2: "confirm_buy exchange c w1 = (r2, w2)"
    by (cases "confirm_buy exchange c w1")
  obtain c' where cb: "confirm_buy exchange c w1 = (Inr c', w2)"
    using p2 assms main_confirm_failed [OF sb, of _ w2] by (cases r2) auto
  have sl: "sell_leg exchange a c' w2 = (Inr rep, w')"
    using main_confirmed [OF sb cb] assms by simp
  note s = sell_leg_Inr [OF sl] and b = confirm_buy_Inr [OF cb]
  show "submitted w' = submitted w @ [buy_order a (ueth_trade_amount rep),
                                       sell_order a (ueth_trade_amount rep)]"
    using sell_leg_log [OF sl] confirm_buy_log [OF cb] submit_buy_Inr(1) [OF sb] s(8) b(4)
    by simp
  show "0 < actual_ueth_bought rep" using s(7) b(1) by simp
  show "trade_total_volume rep = usdc_spent rep + usdc_received rep" using s(2,4) by simp
  show "net_usdc_change rep = final_usdc rep - initial_usdc rep" using s(3,6) by simp
  show "usdc_spent rep = initial_usdc rep - usdc_after_buy rep" using s(4,5,6) b(3,5) by simp
  show "usdc_received rep = final_usdc rep - usdc_after_buy rep" using s(1,5) by simp
qed

lemma execute_log:
  assumes "l = submitted (snd (execute_single_roundtrip exchange a t n w))"
  shows "l = submitted w \<or> l = submitted w @ [buy_order a (sz (last l))]
       \<or> l = submitted w @ [buy_order a (sz (last l)), sell_order a (sz (last l))]"
proof (cases "roundtrip_body exchange a w")
  case (Pair r w')
  then have l: "l = submitted w'" using assms by (simp add: execute_world)
  show ?thesis
  proof (cases r)
    case (Inl e)
    then show ?thesis using roundtrip_body_Inl [of exchange a w e w'] Pair l by simp
  next
    case (Inr x)
    then show ?thesis
      using roundtrip_body_Inr(7) [of exchange a w x w'] Pair l by (simp add: sell_order_def)
  qed
qed

subsection \<open>Which size is sold\<close>

text \<open>
  Claim C1 as stated: the sell order has the size of the observed base-asset delta of the
  buy leg, never the requested size. In \<open>fee_world\<close> the single round trip requests
  0.0383 UETH, observes a delta of 0.03827319 UETH (the fee is taken from the asset
  received) and sells 0.0383 UETH: the requested size, not the delta.
\<close>

theorem sell_size_differs_from_observed_delta:
  "map_sum id actual_ueth_bought (fst (ueth_roundtrip_main sim_venue ''@151'' fee_world))
     = Inr (3827319 / 100000000)
   \<and> submitted (snd (ueth_roundtrip_main sim_venue ''@151'' fee_world))
     = [buy_order ''@151'' (383 / 10000), sell_order ''@151'' (383 / 10000)]
   \<and> (383 / 10000 :: rat) \<noteq> 3827319 / 100000000"
  by code_simp

text \<open>
  Claim C1, amended. In both UETH scripts the sell order is submitted with
  \<^verbatim>\<open>sz=ueth_trade_amount\<close>, the rounded size the buy order was submitted with, whatever
  balance delta the buy leg produced: the orders of a round trip are none, the buy alone,
  or the buy followed by a sell of the same size, and a single round trip that runs to
  its end has submitted exactly the buy and the sell of \<^verbatim>\<open>ueth_trade_amount\<close>.
\<close>

theorem sell_size_is_requested_size:
  "(ueth_roundtrip_main exchange a w = (Inr rep, w') \<longrightarrow>
      submitted w' = submitted w @ [buy_order a (ueth_trade_amount rep),
                                    sell_order a (ueth_trade_amount rep)])
   \<and> (\<exists>q. submitted (snd (ueth_roundtrip_main exchange a w))
          \<in> {submitted w, submitted w @ [buy_order a q],
              submitted w @ [buy_order a q, sell_order a q]})
   \<and> (\<exists>q. submitted (snd (execute_single_roundtrip exchange a t n w))
          \<in> {submitted w, submitted w @ [buy_order a q],
              submitted w @ [buy_order a q, sell_order a q]})"
proof (intro conjI impI)
  assume "ueth_roundtrip_main exchange a w = (Inr rep, w')"
  then show "submitted w' = submitted w @ [buy_order a (ueth_trade_amount rep),
                                           sell_order a (ueth_trade_amount rep)]"
    by (rule main_Inr_log(1))
next
  show "\<exists>q. submitted (snd (ueth_roundtrip_main exchange a w))
          \<in> {submitted w, submitted w @ [buy_order a q],
              submitted w @ [buy_order a q, sell_order a q]}"
    using main_log [OF refl, of exchange a w] by blast
next
  show "\<exists>q. submitted (snd (execute_single_roundtrip exchange a t n w))
          \<in> {submitted w, submitted w @ [buy_order a q],
              submitted w @ [buy_order a q, sell_order a q]}"
    using execute_log [OF refl, of exchange a t n w] by blast
qed


theorem sell_size_is_requested_size_witness:
  "fst (ueth_roundtrip_main sim_venue ''@151'' slip_world)
     = Inr \<lparr>price = 3000, initial_usdc = 115, initial_ueth = 0,
            ueth_trade_amount = 383 / 10000, usdc_after_buy = 1 / 10,
            ueth_after_buy = 383 / 10000, actual_ueth_bought = 383 / 10000,
            usdc_spent = 1149 / 10, final_usdc = 1148851 / 10000,
            final_ueth = 0, usdc_received = 1147851 / 10000,
            net_usdc_change = - (1149 / 10000),
            trade_total_volume = 2296851 / 10000,
            estimated_fees = Some (16077957 / 100000000)\<rparr>
   \<and> submitted (snd (ueth_roundtrip_main sim_venue ''@151'' slip_world))
     = submitted slip_world @ [buy_order ''@151'' (383 / 10000), sell_order ''@151'' (383 / 10000)]"
proof -
  let ?rep = "\<lparr>price = 3000, initial_usdc = 115, initial_ueth = 0,
            ueth_trade_amount = 383 / 10000, usdc_after_buy = 1 / 10,
            ueth_after_buy = 383 / 10000, actual_ueth_bought = 383 / 10000,
            usdc_spent = 1149 / 10, final_usdc = 1148851 / 10000,
            final_ueth = 0, usdc_received = 1147851 / 10000,
            net_usdc_change = - (1149 / 10000),
            trade_total_volume = 2296851 / 10000,
            estimated_fees = Some (16077957 / 100000000)\<rparr>"
  have h: "fst (ueth_roundtrip_main sim_venue ''@151'' slip_world) = Inr ?rep"
    by code_simp
  then have h': "ueth_roundtrip_main sim_venue ''@151'' slip_world
      = (Inr ?rep, snd (ueth_roundtrip_main sim_venue ''@151'' slip_world))"
    by (simp add: prod_eq_iff)
  from sell_size_is_requested_size [of sim_venue "''@151''" slip_world ?rep
      "snd (ueth_roundtrip_main sim_venue ''@151'' slip_world)"] h h'
  show ?thesis by simp
qed

subsection \<open>After a confirmed buy\<close>

text \<open>
  Claim C4 as stated: after a confirmed buy a sell order for the confirmed quantity is
  submitted, so that no round trip ends holding what the buy leg acquired. In
  \<open>resting_sell_world\<close> the buy is confirmed with 0.03827319 UETH, the sell order is for
  0.0383 UETH, it does not fill, and the round trip runs to its end with the 0.03827319
  UETH still in the account.
\<close>

theorem confirmed_buy_can_leave_residual:
  "map_sum id actual_ueth_bought (fst (ueth_roundtrip_main sim_venue ''@151'' resting_sell_world))
     = Inr (3827319 / 100000000)
   \<and> submitted (snd (ueth_roundtrip_main sim_venue ''@151'' resting_sell_world))
     = [buy_order ''@151'' (383 / 10000), sell_order ''@151'' (383 / 10000)]
   \<and> (383 / 10000 :: rat) \<noteq> 3827319 / 100000000
   \<and> balance_loop (balances (vstate resting_sell_world)) ''UETH'' = 0
   \<and> balance_loop (balances (vstate (snd (ueth_roundtrip_main sim_venue ''@151''
        resting_sell_world)))) ''UETH'' = 3827319 / 100000000"
  by code_simp

text \<open>
  Claim C4, amended. In \<^verbatim>\<open>ueth_roundtrip_trade.py\<close>, whenever the buy leg is confirmed
  (the observed delta is positive), a sell order is submitted on every path that follows,
  and it is the only order after the buy; its size is \<^verbatim>\<open>ueth_trade_amount\<close>, the size of the
  buy order.
\<close>

theorem confirmed_buy_is_followed_by_sell:
  assumes "submit_buy exchange a w = (Inr c, w1)"
    and "confirm_buy exchange c w1 = (Inr c', w2)"
  shows "0 < actual_ueth_bought c'
       \<and> ueth_trade_amount c' = ueth_trade_amount c
       \<and> submitted w2 = submitted w @ [buy_order a (ueth_trade_amount c)]
       \<and> submitted (snd (ueth_roundtrip_main exchange a w))
           = submitted w @ [buy_order a (ueth_trade_amount c),
                            sell_order a (ueth_trade_amount c)]"
proof -
  obtain r3 w3 where sl: "sell_leg exchange a c' w2 = (r3, w3)"
    by (cases "sell_leg exchange a c' w2")
  have m: "ueth_roundtrip_main exchange a w = (r3, w3)"
    using main_confirmed [OF assms] sl by simp
  note b = confirm_buy_Inr [OF assms(2)]
  have l2: "submitted w2 = submitted w @ [buy_order a (ueth_trade_amount c)]"
    using confirm_buy_log [OF assms(2)] submit_buy_Inr(1) [OF assms(1)] by simp
  have l3: "submitted w3 = submitted w2 @ [sell_order a (ueth_trade_amount c)]"
    using sell_leg_log [OF sl] b(4) by simp
  show ?thesis
    using b(1,4) l2 l3 m by simp
qed


theorem confirmed_buy_is_followed_by_sell_witness:
  "submit_buy sim_venue ''@151'' resting_sell_world
     = (Inr \<lparr>price = 3000, initial_usdc = 115, initial_ueth = 0,
             ueth_trade_amount = 383 / 10000\<rparr>,
        \<lparr>vstate = \<lparr>balances = [\<lparr>coin = ''USDC'', total = 1 / 10, hold = 0\<rparr>,
                               \<lparr>coin = ''UETH'', total = 3827319 / 100000000, hold = 0\<rparr>],
                   mid = 3000, outcomes = [Rest]\<rparr>,
         submitted = [buy_order ''@151'' (383 / 10000)]\<rparr>)
   \<and> 0 < (3827319 / 100000000 :: rat)
   \<and> submitted (snd (ueth_roundtrip_main sim_venue ''@151'' resting_sell_world))
     = [buy_order ''@151'' (383 / 10000), sell_order ''@151'' (383 / 10000)]"
proof -
  let ?c = "\<lparr>price = 3000, initial_usdc = 115, initial_ueth = 0,
             ueth_trade_amount = 383 / 10000\<rparr>"
  let ?w1 = "\<lparr>vstate = \<lparr>balances = [\<lparr>coin = ''USDC'', total = 1 / 10, hold = 0\<rparr>,
                               \<lparr>coin = ''UETH'', total = 3827319 / 100000000, hold = 0\<rparr>],
                   mid = 3000, outcomes = [Rest]\<rparr>,
         submitted = [buy_order ''@151'' (383 / 10000)]\<rparr>"
  let ?c' = "\<lparr>price = 3000, initial_usdc = 115, initial_ueth = 0,
             ueth_trade_amount = 383 / 10000, usdc_after_buy = 1 / 10,
             ueth_after_buy = 3827319 / 100000000,
             actual_ueth_bought = 3827319 / 100000000, usdc_spent = 1149 / 10\<rparr>"
  have h1: "submit_buy sim_venue ''@151'' resting_sell_world = (Inr ?c, ?w1)"
    by code_simp
  have h2: "confirm_buy sim_venue ?c ?w1 = (Inr ?c', ?w1)"
    by code_simp
  have e: "submitted resting_sell_world = []"
    by (simp add: resting_sell_world_def sim_world_def)
  from confirmed_buy_is_followed_by_sell [OF h1 h2] h1 e show ?thesis
    by simp
qed

subsection \<open>No fill observed\<close>

text \<open>
  Claim C8 as stated: for every round trip, an observed base-asset delta of at most zero
  fails the round trip before any sell order. The round trip of the batch script never
  reads the base-asset balance: in \<open>resting_world\<close> the buy is accepted and nothing fills
  (the UETH balance does not move), the sell order is submitted all the same, and the
  round trip is reported as a success.
\<close>

theorem batch_trip_sells_without_fill:
  "success (fst (execute_single_roundtrip sim_venue ''@151'' 1 50 resting_world))
   \<and> submitted (snd (execute_single_roundtrip sim_venue ''@151'' 1 50 resting_world))
     = [buy_order ''@151'' (383 / 10000), sell_order ''@151'' (383 / 10000)]
   \<and> balance_loop (balances (vstate (snd (market_open sim_venue ''@151'' True (383 / 10000)
        (1 / 1000) resting_world)))) ''UETH''
       - balance_loop (balances (vstate resting_world)) ''UETH'' = 0
   \<and> balances (vstate (snd (execute_single_roundtrip sim_venue ''@151'' 1 50 resting_world)))
     = balances (vstate resting_world)"
  by code_simp

text \<open>
  Claim C8, amended. In \<^verbatim>\<open>ueth_roundtrip_trade.py\<close>, when the UETH balance read after the
  wait is not above the balance read before the buy, \<^verbatim>\<open>main\<close> fails with "No UETH was
  received from buy order!", and the buy order is the only order submitted. (The wait is
  a fixed sleep; the script has no separate time-out failure.)
\<close>

theorem no_fill_fails_before_sell:
  assumes "submit_buy exchange a w = (Inr c, w1)"
    and "get_balance exchange ''USDC'' w1 = (Inr usdc1, w2)"
    and "get_balance exchange ''UETH'' w2 = (Inr ueth1, w3)"
    and "ueth1 - initial_ueth c \<le> 0"
  shows "ueth_roundtrip_main exchange a w = (Inl NoneReceived, w3)
       \<and> submitted w3 = submitted w @ [buy_order a (ueth_trade_amount c)]"
proof -
  have cb: "confirm_buy exchange c w1 = (Inl NoneReceived, w3)"
    using assms(2-4) by (rule confirm_buy_no_fill)
  have "submitted w3 = submitted w1"
    using cb by (rule confirm_buy_log)
  then show ?thesis
    using main_confirm_failed [OF assms(1) cb] submit_buy_Inr(1) [OF assms(1)] by simp
qed


theorem no_fill_fails_before_sell_witness:
  "submit_buy sim_venue ''@151'' resting_world
     = (Inr \<lparr>price = 3000, initial_usdc = 115, initial_ueth = 0,
             ueth_trade_amount = 383 / 10000\<rparr>,
        \<lparr>vstate = \<lparr>balances = [\<lparr>coin = ''USDC'', total = 115, hold = 0\<rparr>],
                   mid = 3000, outcomes = [Rest]\<rparr>,
         submitted = [buy_order ''@151'' (383 / 10000)]\<rparr>)
   \<and> (0 :: rat) - 0 \<le> 0
   \<and> fst (ueth_roundtrip_main sim_venue ''@151'' resting_world) = Inl NoneReceived
   \<and> submitted (snd (ueth_roundtrip_main sim_venue ''@151'' resting_world))
     = [buy_order ''@151'' (383 / 10000)]"
proof -
  let ?c = "\<lparr>price = 3000, initial_usdc = 115, initial_ueth = 0,
             ueth_trade_amount = 383 / 10000\<rparr>"
  let ?w1 = "\<lparr>vstate = \<lparr>balances = [\<lparr>coin = ''USDC'', total = 115, hold = 0\<rparr>],
                   mid = 3000, outcomes = [Rest]\<rparr>,
         submitted = [buy_order ''@151'' (383 / 10000)]\<rparr>"
  have h1: "submit_buy sim_venue ''@151'' resting_world = (Inr ?c, ?w1)"
    by code_simp
  have h2: "get_balance sim_venue ''USDC'' ?w1 = (Inr 115, ?w1)"
    by code_simp
  have h3: "get_balance sim_venue ''UETH'' ?w1 = (Inr 0, ?w1)"
    by code_simp
  have h4: "(0 :: rat) - initial_ueth ?c \<le> 0"
    by simp
  have e: "submitted resting_world = []"
    by (simp add: resting_world_def sim_world_def)
  from no_fill_fails_before_sell [OF h1 h2 h3 h4] h1 e show ?thesis
    by simp
qed

subsection \<open>Reported volume and cost\<close>

text \<open>
  Claim C2 as stated: the volume of every successful round trip is the quote spent on the
  buy plus the quote received from the sell. In \<open>slip_world\<close> the round trip of the batch
  script spends 114.9 USDC on the buy (115 to 0.1) and receives 114.7851 USDC from the
  sell (0.1 to 114.8851), and reports the volume 229.8, which is twice the size times the
  mid price and not 229.6851.
\<close>

theorem batch_volume_is_not_sum_of_deltas:
  "success (fst (execute_single_roundtrip sim_venue ''@151'' 1 50 slip_world))
   \<and> volume (fst (execute_single_roundtrip sim_venue ''@151'' 1 50 slip_world)) = 1149 / 5
   \<and> balance_loop (balances (vstate slip_world)) ''USDC'' = 115
   \<and> balance_loop (balances (vstate (snd (market_open sim_venue ''@151'' True (383 / 10000)
        (1 / 1000) slip_world)))) ''USDC'' = 1 / 10
   \<and> balance_loop (balances (vstate (snd (execute_single_roundtrip sim_venue ''@151'' 1 50
        slip_world)))) ''USDC'' = 1148851 / 10000
   \<and> (1149 / 5 :: rat) \<noteq> (115 - 1 / 10) + (1148851 / 10000 - 1 / 10)"
  by code_simp

text \<open>
  Claim C2, amended. A single round trip of \<^verbatim>\<open>ueth_roundtrip_trade.py\<close> that runs to its
  end reports the volume \<^verbatim>\<open>usdc_spent + usdc_received\<close> and the net cost
  \<^verbatim>\<open>usdc_spent - usdc_received\<close>, both of them differences of the USDC balances read
  before the buy, after the buy and after the sell. A successful round trip of the batch
  script reports the cost \<^verbatim>\<open>usdc_before - usdc_after\<close>, the USDC balance read at its start
  less the one read at its end, and as volume the estimate
  \<^verbatim>\<open>ueth_trade_amount * ueth_price * 2\<close>.
\<close>

theorem reported_volume_and_cost:
  "(fst (ueth_roundtrip_main exchange a w) = Inr rep \<longrightarrow>
      trade_total_volume rep = usdc_spent rep + usdc_received rep
      \<and> - net_usdc_change rep = usdc_spent rep - usdc_received rep
      \<and> usdc_spent rep = initial_usdc rep - usdc_after_buy rep
      \<and> usdc_received rep = final_usdc rep - usdc_after_buy rep)
   \<and> (spot_user_state exchange (vstate w) = (Inr bs, v1)
        \<and> success (fst (execute_single_roundtrip exchange a t n w)) \<longrightarrow>
      (\<exists>q p u. ueth_amount (fst (execute_single_roundtrip exchange a t n w)) = Some q
         \<and> ueth_price (fst (execute_single_roundtrip exchange a t n w)) = Some p
         \<and> usdc_remaining (fst (execute_single_roundtrip exchange a t n w)) = Some u
         \<and> volume (fst (execute_single_roundtrip exchange a t n w)) = q * p * 2
         \<and> cost (fst (execute_single_roundtrip exchange a t n w))
             = balance_loop bs ''USDC'' - u))"
proof (intro conjI impI)
  assume "fst (ueth_roundtrip_main exchange a w) = Inr rep"
  then have m: "ueth_roundtrip_main exchange a w
      = (Inr rep, snd (ueth_roundtrip_main exchange a w))"
    by (simp add: prod_eq_iff)
  note f = main_Inr_log [OF m]
  show "trade_total_volume rep = usdc_spent rep + usdc_received rep" by (rule f(3))
  show "- net_usdc_change rep = usdc_spent rep - usdc_received rep"
    using f(4,5,6) by simp
  show "usdc_spent rep = initial_usdc rep - usdc_after_buy rep" by (rule f(5))
  show "usdc_received rep = final_usdc rep - usdc_after_buy rep" by (rule f(6))
next
  let ?r = "fst (execute_single_roundtrip exchange a t n w)"
  assume h: "spot_user_state exchange (vstate w) = (Inr bs, v1) \<and> success ?r"
  then have b: "roundtrip_body exchange a w
      = (Inr ?r, snd (execute_single_roundtrip exchange a t n w))"
    by (simp add: execute_Inr)
  note r = roundtrip_body_Inr [OF b]
  have c: "cost ?r = balance_loop bs ''USDC'' - the (usdc_remaining ?r)"
    using roundtrip_body_first_read(3) [OF conjunct1 [OF h] b] .
  show "\<exists>q p u. ueth_amount ?r = Some q \<and> ueth_price ?r = Some p \<and> usdc_remaining ?r = Some u
         \<and> volume ?r = q * p * 2 \<and> cost ?r = balance_loop bs ''USDC'' - u"
    using r(3,4,5,6) c by blast
qed


theorem reported_volume_and_cost_witness:
  "fst (ueth_roundtrip_main sim_venue ''@151'' slip_world)
     = Inr \<lparr>price = 3000, initial_usdc = 115, initial_ueth = 0,
            ueth_trade_amount = 383 / 10000, usdc_after_buy = 1 / 10,
            ueth_after_buy = 383 / 10000, actual_ueth_bought = 383 / 10000,
            usdc_spent = 1149 / 10, final_usdc = 1148851 / 10000,
            final_ueth = 0, usdc_received = 1147851 / 10000,
            net_usdc_change = - (1149 / 10000),
            trade_total_volume = 2296851 / 10000,
            estimated_fees = Some (16077957 / 100000000)\<rparr>
   \<and> (2296851 / 10000 :: rat) = 1149 / 10 + 1147851 / 10000
   \<and> spot_user_state sim_venue (vstate slip_world)
       = (Inr [\<lparr>coin = ''USDC'', total = 115, hold = 0\<rparr>], vstate slip_world)
   \<and> success (fst (execute_single_roundtrip sim_venue ''@151'' 1 50 slip_world))
   \<and> (\<exists>q p u. ueth_amount (fst (execute_single_roundtrip sim_venue ''@151'' 1 50 slip_world)) = Some q
         \<and> ueth_price (fst (execute_single_roundtrip sim_venue ''@151'' 1 50 slip_world)) = Some p
         \<and> usdc_remaining (fst (execute_single_roundtrip sim_venue ''@151'' 1 50 slip_world)) = Some u
         \<and> volume (fst (execute_single_roundtrip sim_venue ''@151'' 1 50 slip_world)) = q * p * 2
         \<and> cost (fst (execute_single_roundtrip sim_venue ''@151'' 1 50 slip_world)) = 115 - u)"
proof -
  let ?rep = "\<lparr>price = 3000, initial_usdc = 115, initial_ueth = 0,
            ueth_trade_amount = 383 / 10000, usdc_after_buy = 1 / 10,
            ueth_after_buy = 383 / 10000, actual_ueth_bought = 383 / 10000,
            usdc_spent = 1149 / 10, final_usdc = 1148851 / 10000,
            final_ueth = 0, usdc_received = 1147851 / 10000,
            net_usdc_change = - (1149 / 10000),
            trade_total_volume = 2296851 / 10000,
            estimated_fees = Some (16077957 / 100000000)\<rparr>"
  have h1: "fst (ueth_roundtrip_main sim_venue ''@151'' slip_world) = Inr ?rep"
    by code_simp
  have h2: "spot_user_state sim_venue (vstate slip_world)
       = (Inr [\<lparr>coin = ''USDC'', total = 115, hold = 0\<rparr>], vstate slip_world)"
    by (simp add: sim_venue_def slip_world_def sim_world_def)
  have h3: "success (fst (execute_single_roundtrip sim_venue ''@151'' 1 50 slip_world))"
    by code_simp
  from reported_volume_and_cost [of sim_venue "''@151''" slip_world ?rep
      "[\<lparr>coin = ''USDC'', total = 115, hold = 0\<rparr>]" "vstate slip_world" 1 50] h1 h2 h3
  show ?thesis by simp
qed

subsection \<open>The balance that is checked and sized with\<close>

text \<open>
  Claim C3 as stated: the quantity checked against the minimum and used for sizing is
  \<open>total - hold\<close>. In \<open>held_world\<close> the total is 115 and 114.5 of it are held: the
  available 0.5 is below the minimum of 1, yet the round trip does not fail for
  insufficient funds; it submits a buy order sized from the total 115.
\<close>

theorem held_funds_are_not_subtracted:
  "balances (vstate held_world) = [\<lparr>coin = ''USDC'', total = 115, hold = 229 / 2\<rparr>]
   \<and> (115 - 229 / 2 :: rat) < 1
   \<and> error (fst (execute_single_roundtrip sim_venue ''@151'' 1 50 held_world))
       = Some (BuyFailed \<lparr>status = ''err'', response = ''rejected''\<rparr>)
   \<and> submitted (snd (execute_single_roundtrip sim_venue ''@151'' 1 50 held_world))
       = [buy_order ''@151'' (383 / 10000)]
   \<and> (383 / 10000 :: rat) = of_int \<lfloor>115 / 3000 * 10000 :: rat\<rfloor> / 10000"
  by code_simp

lemma first_order_from_take:
  assumes "take (Suc (length l)) xs = l @ [b]"
  shows "\<exists>rest. xs = l @ b # rest"
proof -
  have "xs = take (Suc (length l)) xs @ drop (Suc (length l)) xs"
    by simp
  then have "xs = l @ b # drop (Suc (length l)) xs"
    using assms by simp
  then show ?thesis by blast
qed

text \<open>
  Claim C3, amended. The quantity \<^verbatim>\<open>execute_single_roundtrip\<close> checks and sizes with is
  the \<^verbatim>\<open>total\<close> that \<^verbatim>\<open>get_balance\<close> returns; \<^verbatim>\<open>hold\<close> is never read. When the balance
  query answers, the round trip fails with "Insufficient USDC" exactly when that total is
  below 1, and otherwise, with a non-zero mid price, the buy order it submits has the
  size computed from that total.
\<close>

theorem insufficient_iff_total_below_one:
  assumes "spot_user_state exchange (vstate w) = (Inr bs, v1)"
  shows "(error (fst (execute_single_roundtrip exchange a t n w))
            = Some (InsufficientUSDC (balance_loop bs ''USDC'')))
          = (balance_loop bs ''USDC'' < 1)
       \<and> (\<exists>x. error (fst (execute_single_roundtrip exchange a t n w))
            = Some (InsufficientUSDC x))
          = (balance_loop bs ''USDC'' < 1)
       \<and> (\<not> balance_loop bs ''USDC'' < 1 \<and> all_mids exchange v1 = (Inr mids, v2)
            \<and> mids a = Some p \<and> p \<noteq> 0 \<longrightarrow>
          (\<exists>rest. submitted (snd (execute_single_roundtrip exchange a t n w))
             = submitted w
               @ buy_order a (of_int \<lfloor>balance_loop bs ''USDC'' / p * 10000\<rfloor> / 10000) # rest))"
proof (intro conjI impI)
  show "(error (fst (execute_single_roundtrip exchange a t n w))
            = Some (InsufficientUSDC (balance_loop bs ''USDC'')))
          = (balance_loop bs ''USDC'' < 1)"
    using roundtrip_body_first_read(1,2) [OF assms, of a]
    by (auto simp: execute_error)
  show "(\<exists>x. error (fst (execute_single_roundtrip exchange a t n w))
            = Some (InsufficientUSDC x))
          = (balance_loop bs ''USDC'' < 1)"
    using roundtrip_body_first_read(1,2) [OF assms, of a]
    by (auto simp: execute_error)
next
  assume h: "\<not> balance_loop bs ''USDC'' < 1 \<and> all_mids exchange v1 = (Inr mids, v2)
            \<and> mids a = Some p \<and> p \<noteq> 0"
  have "take (Suc (length (submitted w))) (submitted (snd (roundtrip_body exchange a w)))
      = submitted w @ [buy_order a (of_int \<lfloor>balance_loop bs ''USDC'' / p * 10000\<rfloor> / 10000)]"
  proof (rule roundtrip_body_buy_size [OF assms])
    show "all_mids exchange v1 = (Inr mids, v2)" using h by simp
    show "mids a = Some p" using h by simp
    show "p \<noteq> 0" using h by simp
    show "\<not> balance_loop bs ''USDC'' < 1" using h by simp
  qed
  then show "\<exists>rest. submitted (snd (execute_single_roundtrip exchange a t n w))
             = submitted w
               @ buy_order a (of_int \<lfloor>balance_loop bs ''USDC'' / p * 10000\<rfloor> / 10000) # rest"
    unfolding execute_world by (rule first_order_from_take)
qed


theorem insufficient_iff_total_below_one_witness:
  "spot_user_state sim_venue (vstate held_world)
     = (Inr [\<lparr>coin = ''USDC'', total = 115, hold = 229 / 2\<rparr>], vstate held_world)
   \<and> \<not> (115 :: rat) < 1
   \<and> all_mids sim_venue (vstate held_world) = (Inr [''@151'' \<mapsto> 3000], vstate held_world)
   \<and> [''@151'' \<mapsto> 3000 :: rat] ''@151'' = Some 3000 \<and> (3000 :: rat) \<noteq> 0
   \<and> (\<forall>x. error (fst (execute_single_roundtrip sim_venue ''@151'' 1 50 held_world))
          \<noteq> Some (InsufficientUSDC x))
   \<and> (\<exists>rest. submitted (snd (execute_single_roundtrip sim_venue ''@151'' 1 50 held_world))
         = buy_order ''@151'' (383 / 10000) # rest)"
proof -
  let ?bs = "[\<lparr>coin = ''USDC'', total = 115, hold = 229 / 2\<rparr>]"
  have h1: "spot_user_state sim_venue (vstate held_world) = (Inr ?bs, vstate held_world)"
    by (simp add: sim_venue_def held_world_def sim_world_def)
  have h2: "all_mids sim_venue (vstate held_world)
      = (Inr [''@151'' \<mapsto> 3000], vstate held_world)"
    by (simp add: sim_venue_def held_world_def sim_world_def)
  have u: "balance_loop ?bs ''USDC'' = 115"
    by simp
  have q: "rat_of_int \<lfloor>115 / 3000 * 10000 :: rat\<rfloor> / 10000 = 383 / 10000"
    by code_simp
  have e: "submitted held_world = []"
    by (simp add: held_world_def sim_world_def)
  from insufficient_iff_total_below_one [OF h1, of "''@151''" 1 50
      "[''@151'' \<mapsto> 3000]" "vstate held_world" 3000]
  have "(\<exists>x. error (fst (execute_single_roundtrip sim_venue ''@151'' 1 50 held_world))
            = Some (InsufficientUSDC x)) = ((115 :: rat) < 1)"
    and "\<exists>rest. submitted (snd (execute_single_roundtrip sim_venue ''@151'' 1 50 held_world))
         = buy_order ''@151'' (383 / 10000) # rest"
    unfolding u q using h2 e by simp_all
  then show ?thesis
    using h1 h2 by simp
qed

subsection \<open>Rounding the size down\<close>


lemma bind_never_returns:
  "(\<And>x w'. fst (f x w') \<noteq> Inr y) \<Longrightarrow> fst (bind m f w) \<noteq> Inr y"
  by (auto simp: bind_def split: prod.splits sum.splits)

lemma usde_roundtrip_never_returns:
  "fst (usde_roundtrip_main exchange a w) \<noteq> Inr rep"
  unfolding usde_roundtrip_main_def Let_def
  by (intro bind_never_returns) (simp add: raise_def bind_never_returns)







end
